theory Spec2Isabelle
  imports Complex_Main "HOL-Library.Multiset"
begin

section \<open>Decoded JSON values\<close>

text \<open>
  \<^verbatim>\<open>json.Unmarshal\<close> into an \<^verbatim>\<open>interface{}\<close> produces \<^verbatim>\<open>nil\<close>, \<^verbatim>\<open>bool\<close>,
  \<^verbatim>\<open>float64\<close>, \<^verbatim>\<open>string\<close>, \<^verbatim>\<open>[]interface{}\<close> or \<^verbatim>\<open>map[string]interface{}\<close>.
  No arithmetic is done on numbers, so a number is carried as the real it denotes.

  A Go map has no fixed iteration order. The entries of \<open>JObject\<close> are an association
  list and \<^verbatim>\<open>range\<close> visits them in list order: the order of the list is the order the
  runtime happened to choose in this run. Every theorem below holds for every list, so
  for every iteration order. Keys of a Go map are distinct; a lookup reads the first
  entry of a key.
\<close>

datatype json =
    JNull
  | JBool bool
  | JNumber real
  | JString string
  | JArray "json list"
  | JObject "(string \<times> json) list"

text \<open>\<^verbatim>\<open>o[k]\<close>: the zero value \<^verbatim>\<open>nil\<close> for an absent key.\<close>

definition index :: "(string \<times> json) list \<Rightarrow> string \<Rightarrow> json" where
  "index o' k = (case map_of o' k of None \<Rightarrow> JNull | Some v \<Rightarrow> v)"

section \<open>Errors\<close>

text \<open>
  Go \<^verbatim>\<open>error\<close> values and panics. \<open>New\<close> is \<^verbatim>\<open>errors.New\<close>, \<open>Errorf\<close> is
  \<^verbatim>\<open>fmt.Errorf\<close> with the message already formatted, \<open>EOF\<close> is \<^verbatim>\<open>io.EOF\<close>,
  \<open>ErrNotExist\<close> is any error for which \<^verbatim>\<open>os.IsNotExist\<close> holds, \<open>OsError\<close> any
  other error of the operating system or of a library, \<open>Panic\<close> a panic.
\<close>

datatype error =
    New string
  | Errorf string
  | EOF
  | ErrNotExist
  | OsError string
  | Panic string

section \<open>Resource extractor\<close>

text \<open>The \<^verbatim>\<open>%T\<close> verb: the dynamic type of a decoded value.\<close>

fun typeName :: "json \<Rightarrow> string" where
  "typeName JNull = ''<nil>''"
| "typeName (JBool _) = ''bool''"
| "typeName (JNumber _) = ''float64''"
| "typeName (JString _) = ''string''"
| "typeName (JArray _) = ''[]interface {}''"
| "typeName (JObject _) = ''map[string]interface {}''"

text \<open>
  \<^verbatim>\<open>jsonWalk\<close>. The two \<^verbatim>\<open>for ... range\<close> loops are \<open>jsonWalk_map\<close> and
  \<open>jsonWalk_slice\<close>; their last argument is \<^verbatim>\<open>ret\<close>. An error of a child leaves the
  loop and the function at once.
\<close>

fun jsonWalk :: "json \<Rightarrow> error + json list"
  and jsonWalk_map :: "(string \<times> json) list \<Rightarrow> json list \<Rightarrow> error + json list"
  and jsonWalk_slice :: "json list \<Rightarrow> json list \<Rightarrow> error + json list"
where
  "jsonWalk (JObject o') =
     (if index o' ''kind'' \<noteq> JNull \<and> index o' ''apiVersion'' \<noteq> JNull
      then Inr [JObject o']
      else jsonWalk_map o' [])"
| "jsonWalk (JArray o') = jsonWalk_slice o' []"
| "jsonWalk JNull = Inl (Errorf (''Unexpected object structure: '' @ typeName JNull))"
| "jsonWalk (JBool b) = Inl (Errorf (''Unexpected object structure: '' @ typeName (JBool b)))"
| "jsonWalk (JNumber n) = Inl (Errorf (''Unexpected object structure: '' @ typeName (JNumber n)))"
| "jsonWalk (JString s) = Inl (Errorf (''Unexpected object structure: '' @ typeName (JString s)))"
| "jsonWalk_map [] ret = Inr ret"
| "jsonWalk_map ((k, v) # kvs) ret =
     (case jsonWalk v of
        Inl err \<Rightarrow> Inl err
      | Inr children \<Rightarrow> jsonWalk_map kvs (ret @ children))"
| "jsonWalk_slice [] ret = Inr ret"
| "jsonWalk_slice (v # vs) ret =
     (case jsonWalk v of
        Inl err \<Rightarrow> Inl err
      | Inr children \<Rightarrow> jsonWalk_slice vs (ret @ children))"

section \<open>Path resolver\<close>

text \<open>
  What \<^verbatim>\<open>getJPathsAndFile\<close> sees of the operating system: the result of
  \<^verbatim>\<open>os.Getwd\<close> and, for each path, the error returned by \<^verbatim>\<open>os.Stat\<close>
  (\<open>None\<close> is \<^verbatim>\<open>nil\<close>: the file is there and can be inspected).
\<close>

record os =
  Getwd :: "error + string"
  Stat :: "string \<Rightarrow> error option"

text \<open>\<^verbatim>\<open>os.IsNotExist\<close>; it is false of \<^verbatim>\<open>nil\<close>.\<close>

fun IsNotExist :: "error option \<Rightarrow> bool" where
  "IsNotExist None = False"
| "IsNotExist (Some err) = (err = ErrNotExist)"

definition errorMainNotFound :: error where
  "errorMainNotFound = New ''couldn't find either main.jsonnet or main.libsonnet''"

text \<open>
  \<^verbatim>\<open>getJPathsAndFile\<close>. \<^verbatim>\<open>filepath.Join\<close> belongs to the standard library and is
  the parameter \<open>Join\<close>, applied to the list of its arguments. On failure the Go function
  returns \<^verbatim>\<open>nil\<close> and the empty string beside the error; here that is \<open>Inl\<close> of the
  error.
\<close>

definition getJPathsAndFile ::
  "(string list \<Rightarrow> string) \<Rightarrow> os \<Rightarrow> string \<Rightarrow> error + (string list \<times> string)" where
  "getJPathsAndFile Join w path =
     (case Getwd w of
        Inl err \<Rightarrow> Inl err
      | Inr pwd \<Rightarrow>
          (let japths = [] @ [Join [pwd, ''lib''], Join [pwd, ''vendor''], Join [path, ''.metadata'']];
               path' = Join [''environments'', path];
               file = Join [path', ''main.libsonnet'']
           in if \<not> IsNotExist (Stat w file) then Inr (japths, file)
              else (let file' = Join [path', ''main.jsonnet'']
                    in if \<not> IsNotExist (Stat w file') then Inr (japths, file')
                       else Inl errorMainNotFound)))"

text \<open>
  A concrete \<open>Join\<close> for running the resolver: \<^verbatim>\<open>filepath.Join\<close> on Unix, which
  joins the elements from the first non-empty one on with slashes and passes the result
  to \<^verbatim>\<open>filepath.Clean\<close>. \<open>Clean\<close> drops empty and \<^verbatim>\<open>.\<close> elements, lets a
  \<^verbatim>\<open>..\<close> element take back the element before it (and drops it at the root), keeps the
  leading slash of a rooted path, and returns \<^verbatim>\<open>.\<close> for an empty result.
\<close>

fun joinWith :: "string list \<Rightarrow> string" where
  "joinWith [] = []"
| "joinWith [e] = e"
| "joinWith (e # es) = e @ ''/'' @ joinWith es"

fun splitSlash :: "string \<Rightarrow> string list" where
  "splitSlash [] = [[]]"
| "splitSlash (c # cs) =
     (if c = CHR ''/'' then [] # splitSlash cs
      else (case splitSlash cs of [] \<Rightarrow> [[c]] | e # es \<Rightarrow> (c # e) # es))"

text \<open>\<open>out\<close> holds the elements kept so far, the last one first.\<close>

fun cleanElems :: "bool \<Rightarrow> string list \<Rightarrow> string list \<Rightarrow> string list" where
  "cleanElems rooted out [] = rev out"
| "cleanElems rooted out (e # es) =
     (if e = [] \<or> e = ''.'' then cleanElems rooted out es
      else if e = ''..'' then
        (case out of
           [] \<Rightarrow> if rooted then cleanElems rooted out es else cleanElems rooted [e] es
         | x # xs \<Rightarrow> if x = ''..'' then cleanElems rooted (e # out) es else cleanElems rooted xs es)
      else cleanElems rooted (e # out) es)"

definition Clean :: "string \<Rightarrow> string" where
  "Clean path =
     (case path of
        [] \<Rightarrow> ''.''
      | c # _ \<Rightarrow>
          (let rooted = (c = CHR ''/'');
               out = (if rooted then ''/'' else []) @ joinWith (cleanElems rooted [] (splitSlash path))
           in if out = [] then ''.'' else out))"

definition JoinClean :: "string list \<Rightarrow> string" where
  "JoinClean elem =
     (case dropWhile (\<lambda>e. e = []) elem of
        [] \<Rightarrow> []
      | e # es \<Rightarrow> Clean (joinWith (e # es)))"

section \<open>The native function parseYaml\<close>

text \<open>
  The YAML decoder (\<^verbatim>\<open>yaml.NewYAMLToJSONDecoder\<close>) belongs to a library. It is a
  parameter: \<open>NewDecoder\<close> builds the decoder's state from the input text and
  \<open>Decode\<close> returns either an error (\<^verbatim>\<open>io.EOF\<close> at the end of the input) or the next
  document, with the decoder's new state. The \<^verbatim>\<open>for\<close> loop has no bound of its own,
  so \<open>None\<close> stands for a loop that never returns.
\<close>

partial_function (option) parseYaml_loop ::
  "('d \<Rightarrow> (error + json) \<times> 'd) \<Rightarrow> 'd \<Rightarrow> json list \<Rightarrow> (error + json) option" where
  "parseYaml_loop Decode d ret =
     (case Decode d of
        (Inl err, d') \<Rightarrow> (if err = EOF then Some (Inr (JArray ret)) else Some (Inl err))
      | (Inr doc, d') \<Rightarrow> parseYaml_loop Decode d' (ret @ [doc]))"

declare parseYaml_loop.simps [code]

text \<open>
  The function registered as \<^verbatim>\<open>parseYaml\<close>. \<^verbatim>\<open>dataString[0].(string)\<close> panics when
  the argument list is empty or its first element is not a string.
\<close>

definition parseYaml ::
  "(string \<Rightarrow> 'd) \<Rightarrow> ('d \<Rightarrow> (error + json) \<times> 'd) \<Rightarrow> json list \<Rightarrow> (error + json) option" where
  "parseYaml NewDecoder Decode dataString =
     (case dataString of
        [] \<Rightarrow> Some (Inl (Panic ''runtime error: index out of range [0] with length 0''))
      | JString data # _ \<Rightarrow> parseYaml_loop Decode (NewDecoder data) []
      | JNull # _ \<Rightarrow> Some (Inl (Panic ''interface conversion: interface {} is nil, not string''))
      | x # _ \<Rightarrow>
          Some (Inl (Panic (''interface conversion: interface {} is '' @ typeName x @ '', not string''))))"

text \<open>
  \<open>decodes Decode d docs err\<close>: called again and again from the state \<open>d\<close>, the decoder
  returns the documents \<open>docs\<close>, in this order, and then the error \<open>err\<close>.
\<close>

inductive decodes :: "('d \<Rightarrow> (error + json) \<times> 'd) \<Rightarrow> 'd \<Rightarrow> json list \<Rightarrow> error \<Rightarrow> bool"
  for Decode :: "'d \<Rightarrow> (error + json) \<times> 'd" where
  decodes_err: "Decode d = (Inl err, d') \<Longrightarrow> decodes Decode d [] err"
| decodes_doc: "Decode d = (Inr doc, d') \<Longrightarrow> decodes Decode d' docs err \<Longrightarrow>
     decodes Decode d (doc # docs) err"

code_pred decodes .

text \<open>
  A decoder for running the loop: its state is the list of the results still to come,
  and it reports \<^verbatim>\<open>io.EOF\<close> once the list is used up.
\<close>

fun DecodeNext :: "(error + json) list \<Rightarrow> (error + json) \<times> (error + json) list" where
  "DecodeNext [] = (Inl EOF, [])"
| "DecodeNext (r # rs) = (r, rs)"

section \<open>Flattener\<close>

text \<open>
  \<^verbatim>\<open>unstructured.Unstructured\<close> is a struct with the one field \<^verbatim>\<open>Object\<close>, a map;
  \<^verbatim>\<open>unstructured.UnstructuredList\<close> has the fields \<^verbatim>\<open>Object\<close> and \<^verbatim>\<open>Items\<close>, a
  slice of \<^verbatim>\<open>Unstructured\<close> values.
\<close>

datatype Unstructured = Unstructured (Object: "(string \<times> json) list")

datatype UnstructuredList =
  UnstructuredList (ListObject: "(string \<times> json) list") (Items: "Unstructured list")

text \<open>
  The result of \<^verbatim>\<open>FlattenToV1\<close> is a slice of pointers, and the function takes the
  address of a variable that it goes on assigning to, so the \<^verbatim>\<open>Unstructured\<close>
  variables live in a store: the cell at address \<open>a\<close> of the heap \<open>h\<close> is \<open>h ! a\<close>, and a
  new variable is a new cell at the end. \<open>deref\<close> reads through a pointer.
\<close>

type_synonym addr = nat

type_synonym heap = "Unstructured list"

definition deref :: "heap \<Rightarrow> addr \<Rightarrow> Unstructured option" where
  "deref h a = (if a < length h then Some (h ! a) else None)"

text \<open>
  A \<^verbatim>\<open>runtime.Object\<close> is an interface value. The type switch tells a
  \<^verbatim>\<open>*UnstructuredList\<close> (only read here, so the list it points to is carried along),
  a \<^verbatim>\<open>*Unstructured\<close> (an address) and anything else.
\<close>

datatype runtime_Object =
    PtrUnstructuredList UnstructuredList
  | PtrUnstructured addr
  | OtherObject

text \<open>
  The inner loop \<^verbatim>\<open>for _, item := range o.Items { ret = append(ret, &item) }\<close>.
  The loop has the meaning it has before Go 1.22, and since then in every package whose
  module does not ask for Go 1.22 or later (this code still reads files with
  \<^verbatim>\<open>io/ioutil\<close>, and no module file is among its sources): \<^verbatim>\<open>item\<close> is one
  variable for the whole loop, every iteration assigns the next element to it and
  appends its address, the same address each time. The argument \<open>item\<close> is that
  address.
\<close>

fun range_Items :: "addr \<Rightarrow> Unstructured list \<Rightarrow> addr list \<Rightarrow> heap \<Rightarrow> addr list \<times> heap" where
  "range_Items item [] ret h = (ret, h)"
| "range_Items item (x # xs) ret h = range_Items item xs (ret @ [item]) (h[item := x])"

text \<open>
  The outer loop of \<^verbatim>\<open>FlattenToV1\<close>. Entering the inner loop allocates its variable
  \<^verbatim>\<open>item\<close>, with the zero value of the struct (a \<^verbatim>\<open>nil\<close> map, which reads like the
  empty one).
\<close>

fun range_objs :: "runtime_Object list \<Rightarrow> addr list \<Rightarrow> heap \<Rightarrow> error + (addr list \<times> heap)" where
  "range_objs [] ret h = Inr (ret, h)"
| "range_objs (obj # objs) ret h =
     (case obj of
        PtrUnstructuredList o' \<Rightarrow>
          (case range_Items (length h) (Items o') ret (h @ [Unstructured []]) of
             (ret', h') \<Rightarrow> range_objs objs ret' h')
      | PtrUnstructured o' \<Rightarrow> range_objs objs (ret @ [o']) h
      | OtherObject \<Rightarrow> Inl (Panic ''Unexpected unstructured object type''))"

definition FlattenToV1 :: "heap \<Rightarrow> runtime_Object list \<Rightarrow> error + (addr list \<times> heap)" where
  "FlattenToV1 h objs = range_objs objs [] h"

section \<open>Extraction followed by flattening\<close>

text \<open>
  \<^verbatim>\<open>jsonTok8sObjs\<close> calls three library functions, which are parameters:
  \<open>Unmarshal\<close> (\<^verbatim>\<open>json.Unmarshal\<close>), \<open>Marshal\<close> (\<^verbatim>\<open>json.Marshal\<close>) and \<open>Decode\<close>
  (\<^verbatim>\<open>unstructured.UnstructuredJSONScheme.Decode\<close>). The JSON texts are only handed
  from one call to the next, so their types \<open>'s\<close> and \<open>'b\<close> are left open. \<open>Decode\<close>
  returns a pointer to an object it has just built; \<open>decoded\<close> is that object and
  \<open>new\<close> gives it its place in the store.
\<close>

datatype decoded =
    DUnstructuredList UnstructuredList
  | DUnstructured Unstructured
  | DOther

fun new :: "decoded \<Rightarrow> heap \<Rightarrow> runtime_Object \<times> heap" where
  "new (DUnstructuredList l) h = (PtrUnstructuredList l, h)"
| "new (DUnstructured u) h = (PtrUnstructured (length h), h @ [u])"
| "new DOther h = (OtherObject, h)"

text \<open>The loop \<^verbatim>\<open>for _, v := range objs\<close> of \<^verbatim>\<open>jsonTok8sObjs\<close>.\<close>

fun range_decode ::
  "(json \<Rightarrow> error + 'b) \<Rightarrow> ('b \<Rightarrow> error + decoded) \<Rightarrow> json list \<Rightarrow> runtime_Object list \<Rightarrow> heap \<Rightarrow>
     error + (runtime_Object list \<times> heap)" where
  "range_decode Marshal Decode [] ret h = Inr (ret, h)"
| "range_decode Marshal Decode (v # vs) ret h =
     (case Marshal v of
        Inl err \<Rightarrow> Inl err
      | Inr data \<Rightarrow>
          (case Decode data of
             Inl err \<Rightarrow> Inl err
           | Inr obj \<Rightarrow>
               (case new obj h of
                  (p, h') \<Rightarrow> range_decode Marshal Decode vs (ret @ [p]) h')))"

definition jsonTok8sObjs ::
  "('s \<Rightarrow> error + json) \<Rightarrow> (json \<Rightarrow> error + 'b) \<Rightarrow> ('b \<Rightarrow> error + decoded) \<Rightarrow> 's \<Rightarrow>
     error + (addr list \<times> heap)" where
  "jsonTok8sObjs Unmarshal Marshal Decode jsonstr =
     (case Unmarshal jsonstr of
        Inl err \<Rightarrow> Inl err
      | Inr top' \<Rightarrow>
          (case jsonWalk top' of
             Inl err \<Rightarrow> Inl err
           | Inr objs \<Rightarrow>
               (case range_decode Marshal Decode objs [] [] of
                  Inl err \<Rightarrow> Inl err
                | Inr (ret, h) \<Rightarrow> FlattenToV1 h ret)))"

section \<open>Notation for the statements\<close>

text \<open>
  The import roots and the two candidates for the entry file, written with the \<open>Join\<close>
  that the resolver is given.
\<close>

abbreviation importRoots :: "(string list \<Rightarrow> string) \<Rightarrow> string \<Rightarrow> string \<Rightarrow> string list" where
  "importRoots Join pwd path \<equiv> [Join [pwd, ''lib''], Join [pwd, ''vendor''], Join [path, ''.metadata'']]"

abbreviation candidate :: "(string list \<Rightarrow> string) \<Rightarrow> string \<Rightarrow> string \<Rightarrow> string" where
  "candidate Join path name \<equiv> Join [Join [''environments'', path], name]"

text \<open>The test of \<^verbatim>\<open>jsonWalk\<close> for a resource descriptor.\<close>

abbreviation isDescriptor :: "(string \<times> json) list \<Rightarrow> bool" where
  "isDescriptor o' \<equiv> index o' ''kind'' \<noteq> JNull \<and> index o' ''apiVersion'' \<noteq> JNull"

text \<open>
  The shape by which a list-wrapper is recognised: a sequence under \<^verbatim>\<open>items\<close>.
\<close>

fun isListWrapper :: "(string \<times> json) list \<Rightarrow> bool" where
  "isListWrapper o' = (case index o' ''items'' of JArray _ \<Rightarrow> True | _ \<Rightarrow> False)"

text \<open>
  Where an object handed to \<^verbatim>\<open>FlattenToV1\<close> comes from: a pointer to an
  \<^verbatim>\<open>Unstructured\<close> is in the heap and what it points to was decoded from one of the
  values \<open>V\<close>; a pointer to a list points to a list decoded from one of them.
\<close>

abbreviation decodedFrom ::
  "(json \<Rightarrow> error + 'b) \<Rightarrow> ('b \<Rightarrow> error + decoded) \<Rightarrow> json set \<Rightarrow> heap \<Rightarrow> runtime_Object \<Rightarrow> bool" where
  "decodedFrom Marshal Decode V h p \<equiv>
     (\<forall>a. p = PtrUnstructured a \<longrightarrow>
        a < length h \<and> (\<exists>v\<in>V. \<exists>data. Marshal v = Inr data \<and> Decode data = Inr (DUnstructured (h ! a)))) \<and>
     (\<forall>l. p = PtrUnstructuredList l \<longrightarrow>
        (\<exists>v\<in>V. \<exists>data. Marshal v = Inr data \<and> Decode data = Inr (DUnstructuredList l)))"

text \<open>
  What is read through the pointers that \<^verbatim>\<open>FlattenToV1\<close> appends for one object, given
  the heap on entry: for a list of \<open>n\<close> items, \<open>n\<close> times its last item.
\<close>

fun expand :: "heap \<Rightarrow> runtime_Object \<Rightarrow> Unstructured option list" where
  "expand h (PtrUnstructuredList l) = replicate (length (Items l)) (Some (last (Items l)))"
| "expand h (PtrUnstructured a) = [deref h a]"
| "expand h OtherObject = []"

section \<open>Values for running the definitions\<close>

text \<open>The object of the spec's example of a descriptor that contains another one.\<close>

definition nestedPod :: "(string \<times> json) list" where
  "nestedPod =
     [(''kind'', JString ''Pod''), (''apiVersion'', JString ''v1''),
      (''spec'', JObject [(''kind'', JString ''X''), (''apiVersion'', JString ''Y'')])]"

text \<open>The two descriptors and the enclosing object of the spec's example of discovery.\<close>

definition podV1 :: "(string \<times> json) list" where
  "podV1 = [(''kind'', JString ''Pod''), (''apiVersion'', JString ''v1'')]"

definition serviceV1 :: "(string \<times> json) list" where
  "serviceV1 = [(''kind'', JString ''Service''), (''apiVersion'', JString ''v1'')]"

definition twoBranches :: "(string \<times> json) list" where
  "twoBranches = [(''a'', JObject podV1), (''b'', JArray [JObject serviceV1])]"

text \<open>Two documents for running the loop of \<^verbatim>\<open>parseYaml\<close>.\<close>

definition docA :: json where
  "docA = JObject [(''a'', JNumber 1)]"

definition docB :: json where
  "docB = JObject [(''b'', JNumber 2)]"

text \<open>
  Operating systems for running the resolver. The working directory is \<^verbatim>\<open>/w\<close>. In
  \<open>osFiles fs\<close> exactly the files \<open>fs\<close> exist; in \<open>osFailing missing err\<close> the stat of a
  path in \<open>missing\<close> reports that it does not exist and the stat of any other path fails
  with \<open>err\<close>.
\<close>

definition osFiles :: "string list \<Rightarrow> os" where
  "osFiles fs = \<lparr>Getwd = Inr ''/w'', Stat = (\<lambda>f. if f \<in> set fs then None else Some ErrNotExist)\<rparr>"

definition osFailing :: "string list \<Rightarrow> error \<Rightarrow> os" where
  "osFailing missing err =
     \<lparr>Getwd = Inr ''/w'', Stat = (\<lambda>f. if f \<in> set missing then Some ErrNotExist else Some err)\<rparr>"

text \<open>Two Pods that differ in their name, and a list of the two.\<close>

definition podA :: Unstructured where
  "podA = Unstructured [(''kind'', JString ''Pod''), (''apiVersion'', JString ''v1''),
     (''metadata'', JObject [(''name'', JString ''a'')])]"

definition podB :: Unstructured where
  "podB = Unstructured [(''kind'', JString ''Pod''), (''apiVersion'', JString ''v1''),
     (''metadata'', JObject [(''name'', JString ''b'')])]"

definition twoPods :: UnstructuredList where
  "twoPods = UnstructuredList [(''kind'', JString ''List''), (''apiVersion'', JString ''v1'')] [podA, podB]"

text \<open>
  A \<open>Decode\<close> for running \<^verbatim>\<open>jsonTok8sObjs\<close>, applied to the decoded value in place of
  its text; it follows \<^verbatim>\<open>UnstructuredJSONScheme.Decode\<close> of the library. An object
  with an entry \<^verbatim>\<open>items\<close> becomes an \<^verbatim>\<open>UnstructuredList\<close>: its \<^verbatim>\<open>Object\<close> is the
  object without \<^verbatim>\<open>items\<close>, its \<^verbatim>\<open>Items\<close> are the elements of the sequence, each an
  \<^verbatim>\<open>Unstructured\<close> holding the element as it stands, except that an element with
  neither a \<^verbatim>\<open>kind\<close> nor an \<^verbatim>\<open>apiVersion\<close> is given the \<^verbatim>\<open>apiVersion\<close> of the list
  and its \<^verbatim>\<open>kind\<close> without the suffix \<^verbatim>\<open>List\<close>. Any other object becomes an
  \<^verbatim>\<open>Unstructured\<close> holding the object. An object whose \<^verbatim>\<open>kind\<close> is not a
  non-empty string is rejected.
\<close>

text \<open>The string under a key, or the empty string.\<close>

definition getString :: "(string \<times> json) list \<Rightarrow> string \<Rightarrow> string" where
  "getString o' k = (case index o' k of JString s \<Rightarrow> s | _ \<Rightarrow> [])"

text \<open>The assignment \<^verbatim>\<open>o[k] = v\<close>.\<close>

fun setField :: "(string \<times> json) list \<Rightarrow> string \<Rightarrow> json \<Rightarrow> (string \<times> json) list" where
  "setField [] k v = [(k, v)]"
| "setField ((k', v') # kvs) k v = (if k' = k then (k, v) # kvs else (k', v') # setField kvs k v)"

text \<open>\<^verbatim>\<open>strings.TrimSuffix(s, "List")\<close>.\<close>

definition trimSuffixList :: "string \<Rightarrow> string" where
  "trimSuffixList s =
     (if 4 \<le> length s \<and> drop (length s - 4) s = ''List'' then take (length s - 4) s else s)"

fun decodeItem :: "string \<Rightarrow> string \<Rightarrow> json \<Rightarrow> error + Unstructured" where
  "decodeItem itemKind listAPIVersion (JObject o') =
     Inr (Unstructured
            (if getString o' ''kind'' = [] \<and> getString o' ''apiVersion'' = []
             then setField (setField o' ''kind'' (JString itemKind)) ''apiVersion'' (JString listAPIVersion)
             else o'))"
| "decodeItem itemKind listAPIVersion JNull =
     Inr (Unstructured [(''kind'', JString itemKind), (''apiVersion'', JString listAPIVersion)])"
| "decodeItem itemKind listAPIVersion _ =
     Inl (OsError ''json: cannot unmarshal into Go value of type map[string]interface {}'')"

fun decodeItems :: "string \<Rightarrow> string \<Rightarrow> json list \<Rightarrow> error + Unstructured list" where
  "decodeItems itemKind listAPIVersion [] = Inr []"
| "decodeItems itemKind listAPIVersion (i # is) =
     (case decodeItem itemKind listAPIVersion i of
        Inl err \<Rightarrow> Inl err
      | Inr u \<Rightarrow>
          (case decodeItems itemKind listAPIVersion is of
             Inl err \<Rightarrow> Inl err
           | Inr us \<Rightarrow> Inr (u # us)))"

definition decodeToList :: "(string \<times> json) list \<Rightarrow> json list \<Rightarrow> error + decoded" where
  "decodeToList o' its =
     (case decodeItems (trimSuffixList (getString o' ''kind'')) (getString o' ''apiVersion'') its of
        Inl err \<Rightarrow> Inl err
      | Inr us \<Rightarrow>
          Inr (DUnstructuredList (UnstructuredList (filter (\<lambda>kv. fst kv \<noteq> ''items'') o') us)))"

fun DecodeObject :: "json \<Rightarrow> error + decoded" where
  "DecodeObject (JObject o') =
     (case (case map_of o' ''items'' of
              None \<Rightarrow> Inr (DUnstructured (Unstructured o'))
            | Some (JArray its) \<Rightarrow> decodeToList o' its
            | Some JNull \<Rightarrow> decodeToList o' []
            | Some _ \<Rightarrow> Inl (OsError ''json: cannot unmarshal into Go struct field .Items'')) of
        Inl err \<Rightarrow> Inl err
      | Inr obj \<Rightarrow>
          if getString o' ''kind'' = [] then Inl (OsError ''Object 'Kind' is missing'')
          else Inr obj)"
| "DecodeObject _ = Inl (OsError ''json: cannot unmarshal into Go value of type map[string]interface {}'')"

text \<open>A list whose one item has a \<^verbatim>\<open>kind\<close> and no \<^verbatim>\<open>apiVersion\<close>.\<close>

definition listOfBarePod :: json where
  "listOfBarePod =
     JObject [(''kind'', JString ''List''), (''apiVersion'', JString ''v1''),
       (''items'', JArray [JObject [(''kind'', JString ''Pod'')]])]"

text \<open>A list whose one item is itself a list, of one Pod.\<close>

definition listOfList :: json where
  "listOfList =
     JObject [(''kind'', JString ''List''), (''apiVersion'', JString ''v1''),
       (''items'', JArray [JObject [(''kind'', JString ''List''), (''apiVersion'', JString ''v1''),
          (''items'', JArray [JObject podV1])]])]"

text \<open>An object with a list of one Pod in one entry and a Service in the other.\<close>

definition listAndService :: json where
  "listAndService =
     JObject [(''a'', JObject [(''kind'', JString ''List''), (''apiVersion'', JString ''v1''),
         (''items'', JArray [JObject podV1])]),
       (''b'', JObject serviceV1)]"

section \<open>Properties of the extractor\<close>

text \<open>
  C2. A mapping whose \<^verbatim>\<open>kind\<close> and \<^verbatim>\<open>apiVersion\<close> are both non-null is returned as
  the only element of the result. The equation holds whatever the other entries of the
  mapping are, also entries on which the walk would fail or find a descriptor: its
  children are not walked.
\<close>

theorem jsonWalk_descriptor:
  assumes "index o' ''kind'' \<noteq> JNull" and "index o' ''apiVersion'' \<noteq> JNull"
  shows "jsonWalk (JObject o') = Inr [JObject o']"
  using assms by simp

text \<open>
  The example of the spec: one descriptor, the outer object. Walked on their own, its
  entry \<^verbatim>\<open>spec\<close> would be a descriptor too and its entry \<^verbatim>\<open>kind\<close> an error.
\<close>

theorem jsonWalk_descriptor_witness:
  "index nestedPod ''kind'' \<noteq> JNull \<and> index nestedPod ''apiVersion'' \<noteq> JNull \<and>
   jsonWalk (JObject nestedPod) = Inr [JObject nestedPod] \<and>
   jsonWalk (index nestedPod ''spec'') = Inr [index nestedPod ''spec''] \<and>
   jsonWalk (index nestedPod ''kind'') = Inl (Errorf ''Unexpected object structure: string'')"
proof -
  have k: "index nestedPod ''kind'' \<noteq> JNull" and a: "index nestedPod ''apiVersion'' \<noteq> JNull"
    by (simp_all add: index_def nestedPod_def)
  have "jsonWalk (JObject nestedPod) = Inr [JObject nestedPod]"
    by (rule jsonWalk_descriptor [OF k a])
  moreover have "jsonWalk (index nestedPod ''spec'') = Inr [index nestedPod ''spec'']"
    by (simp add: index_def nestedPod_def)
  moreover have "jsonWalk (index nestedPod ''kind'') = Inl (Errorf ''Unexpected object structure: string'')"
    by (simp add: index_def nestedPod_def)
  ultimately show ?thesis using k a by blast
qed

text \<open>
  C3. A value that is neither a mapping nor a sequence makes the walk fail, with an error
  whose message names the type of the value.
\<close>

theorem jsonWalk_scalar:
  assumes "\<forall>o'. v \<noteq> JObject o'" and "\<forall>vs. v \<noteq> JArray vs"
  shows "jsonWalk v = Inl (Errorf (''Unexpected object structure: '' @ typeName v))"
  using assms by (cases v) simp_all

theorem jsonWalk_scalar_witness:
  "(\<forall>o'. JString ''just a string'' \<noteq> JObject o') \<and> (\<forall>vs. JString ''just a string'' \<noteq> JArray vs) \<and>
   jsonWalk (JString ''just a string'') = Inl (Errorf ''Unexpected object structure: string'')"
  using jsonWalk_scalar [of "JString ''just a string''"] by simp

text \<open>The two loops, for any value of \<^verbatim>\<open>ret\<close> on entry.\<close>

lemma jsonWalk_slice_Inr:
  "jsonWalk_slice vs ret = Inr r \<longleftrightarrow>
     (\<exists>rs. list_all2 (\<lambda>v c. jsonWalk v = Inr c) vs rs \<and> r = ret @ concat rs)"
proof (induction vs arbitrary: ret)
  case Nil
  show ?case by auto
next
  case (Cons v vs)
  show ?case
  proof (cases "jsonWalk v")
    case (Inl err)
    then show ?thesis by (auto simp: list_all2_Cons1)
  next
    case (Inr c)
    then show ?thesis by (auto simp: Cons.IH list_all2_Cons1)
  qed
qed

lemma jsonWalk_map_slice: "jsonWalk_map kvs ret = jsonWalk_slice (map snd kvs) ret"
  by (induction kvs arbitrary: ret) (auto split: sum.splits)

text \<open>
  C6. The walk of a sequence succeeds exactly when the walk of every element does, and
  its result is then the concatenation of the elements' results in the order of the
  sequence. The same holds of a mapping that is not a descriptor and of its values, in
  the order in which the mapping is iterated.
\<close>

theorem jsonWalk_children:
  "(jsonWalk (JArray vs) = Inr r \<longleftrightarrow>
      (\<exists>rs. list_all2 (\<lambda>v c. jsonWalk v = Inr c) vs rs \<and> r = concat rs)) \<and>
   (\<not> (index o' ''kind'' \<noteq> JNull \<and> index o' ''apiVersion'' \<noteq> JNull) \<longrightarrow>
      (jsonWalk (JObject o') = Inr r \<longleftrightarrow>
         (\<exists>rs. list_all2 (\<lambda>v c. jsonWalk v = Inr c) (map snd o') rs \<and> r = concat rs)))"
  by (simp add: jsonWalk_slice_Inr jsonWalk_map_slice)

text \<open>
  The example of the spec: one descriptor from each of the two branches, in either
  order of the two keys.
\<close>

theorem jsonWalk_children_witness:
  "\<not> (index twoBranches ''kind'' \<noteq> JNull \<and> index twoBranches ''apiVersion'' \<noteq> JNull) \<and>
   list_all2 (\<lambda>v c. jsonWalk v = Inr c) (map snd twoBranches) [[JObject podV1], [JObject serviceV1]] \<and>
   jsonWalk (JArray [JObject serviceV1]) = Inr [JObject serviceV1] \<and>
   jsonWalk (JObject twoBranches) = Inr [JObject podV1, JObject serviceV1] \<and>
   jsonWalk (JObject (rev twoBranches)) = Inr [JObject serviceV1, JObject podV1]"
proof -
  have n: "\<not> (index twoBranches ''kind'' \<noteq> JNull \<and> index twoBranches ''apiVersion'' \<noteq> JNull)"
    by (simp add: index_def twoBranches_def)
  have s: "list_all2 (\<lambda>v c. jsonWalk v = Inr c) [JObject serviceV1] [[JObject serviceV1]]"
    by (simp add: serviceV1_def index_def)
  have a: "jsonWalk (JArray [JObject serviceV1]) = Inr [JObject serviceV1]"
    using s jsonWalk_children [of "[JObject serviceV1]" "[JObject serviceV1]" "[]"] by auto
  have l: "list_all2 (\<lambda>v c. jsonWalk v = Inr c) (map snd twoBranches)
             [[JObject podV1], [JObject serviceV1]]"
    using a by (simp add: twoBranches_def podV1_def index_def)
  have t: "jsonWalk (JObject twoBranches) = Inr [JObject podV1, JObject serviceV1]"
    using n l jsonWalk_children [of "[]" "[JObject podV1, JObject serviceV1]" twoBranches] by auto
  have "jsonWalk (JObject (rev twoBranches)) = Inr [JObject serviceV1, JObject podV1]"
    by (simp add: twoBranches_def podV1_def serviceV1_def index_def)
  with n l a t show ?thesis by blast
qed

text \<open>
  The order in which a mapping is iterated decides the order of the result and nothing
  else: two orders of the same entries succeed together and find the same descriptors,
  each as many times.
\<close>

lemma children_any_order:
  fixes vs vs' :: "json list"
  assumes "mset vs = mset vs'" and "list_all2 (\<lambda>v c. jsonWalk v = Inr c) vs rs"
  shows "\<exists>rs'. list_all2 (\<lambda>v c. jsonWalk v = Inr c) vs' rs' \<and> mset (concat rs') = mset (concat rs)"
proof -
  define f where "f = (\<lambda>v. case jsonWalk v of Inr c \<Rightarrow> c | Inl _ \<Rightarrow> [])"
  have "rs = map f vs \<and> (\<forall>v\<in>set vs. jsonWalk v = Inr (f v))"
    using assms(2) by (induction vs rs rule: list_all2_induct) (auto simp: f_def)
  then have rs: "rs = map f vs" and all: "\<forall>v\<in>set vs. jsonWalk v = Inr (f v)"
    by blast+
  have "set vs' = set vs"
    using assms(1) by (metis mset_eq_setD)
  with all have "list_all2 (\<lambda>v c. jsonWalk v = Inr c) vs' (map f vs')"
    by (simp add: list_all2_conv_all_nth) (metis nth_mem)
  moreover have "mset (concat (map f vs')) = mset (concat (map f vs))"
    using assms(1) by (metis mset_concat mset_map sum_mset_sum_list)
  ultimately show ?thesis using rs by blast
qed

lemma jsonWalk_map_any_order:
  assumes "mset o' = mset o''"
    and "\<not> (index o' ''kind'' \<noteq> JNull \<and> index o' ''apiVersion'' \<noteq> JNull)"
    and "\<not> (index o'' ''kind'' \<noteq> JNull \<and> index o'' ''apiVersion'' \<noteq> JNull)"
    and "jsonWalk (JObject o') = Inr r"
  shows "\<exists>r'. jsonWalk (JObject o'') = Inr r' \<and> mset r' = mset r"
proof -
  from assms(2,4) obtain rs
    where rs: "list_all2 (\<lambda>v c. jsonWalk v = Inr c) (map snd o') rs" and r: "r = concat rs"
    by (auto simp: jsonWalk_slice_Inr jsonWalk_map_slice)
  have "mset (map snd o') = mset (map snd o'')"
    using assms(1) by (metis mset_map)
  from children_any_order [OF this rs] obtain rs'
    where "list_all2 (\<lambda>v c. jsonWalk v = Inr c) (map snd o'') rs'"
      and "mset (concat rs') = mset (concat rs)"
    by blast
  with assms(3) r show ?thesis
    by (auto simp: jsonWalk_slice_Inr jsonWalk_map_slice)
qed

section \<open>Properties of parseYaml\<close>

text \<open>
  The part of \<^verbatim>\<open>parseYaml\<close> that is in this code is its loop; how a text is cut into
  documents and how a document is parsed is the decoder's part, which is the library's.
  Of the loop: if the decoder yields the documents \<open>docs\<close> and then \<^verbatim>\<open>io.EOF\<close>, it
  returns the list \<open>docs\<close>, in the decoder's order; if the decoder yields another
  error, it returns that error and no list.
\<close>

lemma parseYaml_loop_decodes:
  "decodes Decode d docs err \<Longrightarrow>
     parseYaml_loop Decode d ret = Some (if err = EOF then Inr (JArray (ret @ docs)) else Inl err)"
  by (induction arbitrary: ret rule: decodes.induct) (simp_all add: parseYaml_loop.simps)

lemma parseYaml_collects:
  assumes "decodes Decode (NewDecoder data) docs err"
  shows "parseYaml NewDecoder Decode [JString data] =
           Some (if err = EOF then Inr (JArray docs) else Inl err)"
  using parseYaml_loop_decodes [OF assms, of "[]"] by (simp add: parseYaml_def)

text \<open>The loop run against a decoder that has two documents to yield.\<close>

lemma parseYaml_collects_two:
  "parseYaml (\<lambda>data. [Inr docA, Inr docB]) DecodeNext [JString data] = Some (Inr (JArray [docA, docB]))"
proof -
  have e: "decodes DecodeNext [] [] EOF"
    by (rule decodes_err [where d' = "[]"]) simp
  have b: "decodes DecodeNext [Inr docB] [docB] EOF"
    by (rule decodes_doc [where d' = "[]", OF _ e]) simp
  have ab: "decodes DecodeNext [Inr docA, Inr docB] [docA, docB] EOF"
    by (rule decodes_doc [where d' = "[Inr docB]", OF _ b]) simp
  from parseYaml_collects [of DecodeNext "\<lambda>data. [Inr docA, Inr docB]" data, OF ab]
  show ?thesis by simp
qed

section \<open>Properties of the path resolver\<close>

lemma getJPathsAndFile_Getwd:
  assumes "Getwd w = Inr pwd"
  shows "getJPathsAndFile Join w path =
           (if \<not> IsNotExist (Stat w (candidate Join path ''main.libsonnet''))
            then Inr (importRoots Join pwd path, candidate Join path ''main.libsonnet'')
            else if \<not> IsNotExist (Stat w (candidate Join path ''main.jsonnet''))
            then Inr (importRoots Join pwd path, candidate Join path ''main.jsonnet'')
            else Inl errorMainNotFound)"
  using assms by (simp add: getJPathsAndFile_def Let_def)

lemma getJPathsAndFile_Getwd_error:
  assumes "Getwd w = Inl err"
  shows "getJPathsAndFile Join w path = Inl err"
  using assms by (simp add: getJPathsAndFile_def)

text \<open>
  C4, as the spec states it, fails on the code. Where \<^verbatim>\<open>environments/e\<close> is a regular
  file, the stat of either candidate fails with \<^verbatim>\<open>not a directory\<close>: neither
  candidate exists, and the resolver returns \<^verbatim>\<open>main.libsonnet\<close> as the entry file
  instead of failing.
\<close>

theorem getJPathsAndFile_neither_exists_counterexample:
  "Stat (osFailing [] (OsError ''not a directory'')) ''environments/e/main.libsonnet'' \<noteq> None \<and>
   Stat (osFailing [] (OsError ''not a directory'')) ''environments/e/main.jsonnet'' \<noteq> None \<and>
   getJPathsAndFile JoinClean (osFailing [] (OsError ''not a directory'')) ''e'' =
     Inr ([''/w/lib'', ''/w/vendor'', ''e/.metadata''], ''environments/e/main.libsonnet'') \<and>
   getJPathsAndFile JoinClean (osFailing [] (OsError ''not a directory'')) ''e'' \<noteq> Inl errorMainNotFound"
  by (simp add: getJPathsAndFile_def osFailing_def JoinClean_def Clean_def)

text \<open>
  C4, amended: the order of the resolution, with the test the code makes. Once the
  working directory is known: if \<^verbatim>\<open>main.libsonnet\<close> exists it is the entry file,
  whether \<^verbatim>\<open>main.jsonnet\<close> exists or not; if the stat of \<^verbatim>\<open>main.libsonnet\<close> reports
  that it does not exist and \<^verbatim>\<open>main.jsonnet\<close> exists, that one is the entry file; if
  the stat of each reports that it does not exist, the resolver fails with the error
  whose message names both files.
\<close>

theorem getJPathsAndFile_order:
  assumes "Getwd w = Inr pwd"
  shows "(Stat w (candidate Join path ''main.libsonnet'') = None \<longrightarrow>
            getJPathsAndFile Join w path =
              Inr (importRoots Join pwd path, candidate Join path ''main.libsonnet'')) \<and>
         (IsNotExist (Stat w (candidate Join path ''main.libsonnet'')) \<and>
          Stat w (candidate Join path ''main.jsonnet'') = None \<longrightarrow>
            getJPathsAndFile Join w path =
              Inr (importRoots Join pwd path, candidate Join path ''main.jsonnet'')) \<and>
         (IsNotExist (Stat w (candidate Join path ''main.libsonnet'')) \<and>
          IsNotExist (Stat w (candidate Join path ''main.jsonnet'')) \<longrightarrow>
            getJPathsAndFile Join w path =
              Inl (New ''couldn't find either main.jsonnet or main.libsonnet''))"
  by (simp add: getJPathsAndFile_Getwd [OF assms] errorMainNotFound_def)

text \<open>Both files, only \<^verbatim>\<open>main.jsonnet\<close>, and neither.\<close>

theorem getJPathsAndFile_order_witness:
  "Getwd (osFiles [''environments/e/main.libsonnet'', ''environments/e/main.jsonnet'']) = Inr ''/w'' \<and>
   Stat (osFiles [''environments/e/main.libsonnet'', ''environments/e/main.jsonnet''])
     ''environments/e/main.libsonnet'' = None \<and>
   getJPathsAndFile JoinClean (osFiles [''environments/e/main.libsonnet'', ''environments/e/main.jsonnet'']) ''e'' =
     Inr ([''/w/lib'', ''/w/vendor'', ''e/.metadata''], ''environments/e/main.libsonnet'') \<and>
   IsNotExist (Stat (osFiles [''environments/e/main.jsonnet'']) ''environments/e/main.libsonnet'') \<and>
   Stat (osFiles [''environments/e/main.jsonnet'']) ''environments/e/main.jsonnet'' = None \<and>
   getJPathsAndFile JoinClean (osFiles [''environments/e/main.jsonnet'']) ''e'' =
     Inr ([''/w/lib'', ''/w/vendor'', ''e/.metadata''], ''environments/e/main.jsonnet'') \<and>
   IsNotExist (Stat (osFiles []) ''environments/e/main.libsonnet'') \<and>
   IsNotExist (Stat (osFiles []) ''environments/e/main.jsonnet'') \<and>
   getJPathsAndFile JoinClean (osFiles []) ''e'' =
     Inl (New ''couldn't find either main.jsonnet or main.libsonnet'')"
  using
    getJPathsAndFile_order [of "osFiles [''environments/e/main.libsonnet'', ''environments/e/main.jsonnet'']"
      "''/w''" JoinClean "''e''"]
    getJPathsAndFile_order [of "osFiles [''environments/e/main.jsonnet'']" "''/w''" JoinClean "''e''"]
    getJPathsAndFile_order [of "osFiles []" "''/w''" JoinClean "''e''"]
  by (simp add: osFiles_def JoinClean_def Clean_def)

text \<open>
  C5, as the spec states it, fails on the code: the third import root is not computed
  from the working directory. For the environment name \<^verbatim>\<open>/abs\<close> it is
  \<^verbatim>\<open>/abs/.metadata\<close>, in the working directory \<^verbatim>\<open>/w\<close> as in the working directory
  \<^verbatim>\<open>/other\<close>, while the first two roots follow the working directory. And where no
  entry file is found, no import root is returned.
\<close>

theorem getJPathsAndFile_third_root_counterexample:
  "getJPathsAndFile JoinClean (osFiles [''environments/abs/main.jsonnet'']) ''/abs'' =
     Inr ([''/w/lib'', ''/w/vendor'', ''/abs/.metadata''], ''environments/abs/main.jsonnet'') \<and>
   getJPathsAndFile JoinClean
     \<lparr>Getwd = Inr ''/other'', Stat = Stat (osFiles [''environments/abs/main.jsonnet''])\<rparr> ''/abs'' =
     Inr ([''/other/lib'', ''/other/vendor'', ''/abs/.metadata''], ''environments/abs/main.jsonnet'') \<and>
   getJPathsAndFile JoinClean (osFiles []) ''e'' = Inl errorMainNotFound"
  by (simp add: getJPathsAndFile_def osFiles_def JoinClean_def Clean_def)

text \<open>
  C5, amended. Whenever the resolver succeeds, it returns exactly three import roots, in
  this order: the working directory joined with \<^verbatim>\<open>lib\<close>, the working directory joined
  with \<^verbatim>\<open>vendor\<close>, and the environment name joined with \<^verbatim>\<open>.metadata\<close>. The third
  is the path \<^verbatim>\<open><environmentName>/.metadata\<close> as it stands: the working directory
  does not enter it, and it is not under \<^verbatim>\<open>environments\<close>.
\<close>

theorem getJPathsAndFile_import_roots:
  assumes "getJPathsAndFile Join w path = Inr (jpaths, file)"
  shows "\<exists>pwd. Getwd w = Inr pwd \<and>
           jpaths = [Join [pwd, ''lib''], Join [pwd, ''vendor''], Join [path, ''.metadata'']]"
proof (cases "Getwd w")
  case (Inl err)
  with assms show ?thesis by (simp add: getJPathsAndFile_Getwd_error)
next
  case (Inr pwd)
  with assms show ?thesis
    by (auto simp: getJPathsAndFile_Getwd [OF Inr] split: if_splits)
qed

theorem getJPathsAndFile_import_roots_witness:
  "getJPathsAndFile JoinClean (osFiles [''environments/jaeger/ops/main.jsonnet'']) ''jaeger/ops'' =
     Inr ([''/w/lib'', ''/w/vendor'', ''jaeger/ops/.metadata''], ''environments/jaeger/ops/main.jsonnet'') \<and>
   (\<exists>pwd. Getwd (osFiles [''environments/jaeger/ops/main.jsonnet'']) = Inr pwd \<and>
      [''/w/lib'', ''/w/vendor'', ''jaeger/ops/.metadata''] =
        [JoinClean [pwd, ''lib''], JoinClean [pwd, ''vendor''], JoinClean [''jaeger/ops'', ''.metadata'']])"
proof -
  have r: "getJPathsAndFile JoinClean (osFiles [''environments/jaeger/ops/main.jsonnet'']) ''jaeger/ops'' =
     Inr ([''/w/lib'', ''/w/vendor'', ''jaeger/ops/.metadata''], ''environments/jaeger/ops/main.jsonnet'')"
    by (simp add: getJPathsAndFile_def osFiles_def JoinClean_def Clean_def)
  from getJPathsAndFile_import_roots [OF r] r show ?thesis by blast
qed

text \<open>
  C8. The result of the resolver depends on the operating system only through the
  working directory and the stat of the two candidates: two calls that see the same
  working directory and the same stat results return the same import roots and the
  same entry file, or the same error.
\<close>

theorem getJPathsAndFile_same_twice:
  assumes "Getwd w1 = Getwd w2"
    and "Stat w1 (candidate Join path ''main.libsonnet'') = Stat w2 (candidate Join path ''main.libsonnet'')"
    and "Stat w1 (candidate Join path ''main.jsonnet'') = Stat w2 (candidate Join path ''main.jsonnet'')"
  shows "getJPathsAndFile Join w1 path = getJPathsAndFile Join w2 path"
proof (cases "Getwd w2")
  case (Inl err)
  with assms(1) show ?thesis by (simp add: getJPathsAndFile_Getwd_error)
next
  case (Inr pwd)
  with assms(1) have "Getwd w1 = Inr pwd" by simp
  from getJPathsAndFile_Getwd [OF this] getJPathsAndFile_Getwd [OF Inr] assms(2,3)
  show ?thesis by simp
qed

text \<open>Between the two calls only a file that is not a candidate has appeared.\<close>

theorem getJPathsAndFile_same_twice_witness:
  "Getwd (osFiles [''environments/e/main.jsonnet'']) =
     Getwd (osFiles [''environments/e/main.jsonnet'', ''environments/e/notes.txt'']) \<and>
   Stat (osFiles [''environments/e/main.jsonnet'']) (candidate JoinClean ''e'' ''main.libsonnet'') =
     Stat (osFiles [''environments/e/main.jsonnet'', ''environments/e/notes.txt''])
       (candidate JoinClean ''e'' ''main.libsonnet'') \<and>
   Stat (osFiles [''environments/e/main.jsonnet'']) (candidate JoinClean ''e'' ''main.jsonnet'') =
     Stat (osFiles [''environments/e/main.jsonnet'', ''environments/e/notes.txt''])
       (candidate JoinClean ''e'' ''main.jsonnet'') \<and>
   getJPathsAndFile JoinClean (osFiles [''environments/e/main.jsonnet'']) ''e'' =
     getJPathsAndFile JoinClean (osFiles [''environments/e/main.jsonnet'', ''environments/e/notes.txt'']) ''e'' \<and>
   getJPathsAndFile JoinClean (osFiles [''environments/e/main.jsonnet'']) ''e'' =
     Inr ([''/w/lib'', ''/w/vendor'', ''e/.metadata''], ''environments/e/main.jsonnet'')"
proof -
  have g: "Getwd (osFiles [''environments/e/main.jsonnet'']) =
     Getwd (osFiles [''environments/e/main.jsonnet'', ''environments/e/notes.txt''])"
    by (simp add: osFiles_def)
  have l: "Stat (osFiles [''environments/e/main.jsonnet'']) (candidate JoinClean ''e'' ''main.libsonnet'') =
     Stat (osFiles [''environments/e/main.jsonnet'', ''environments/e/notes.txt''])
       (candidate JoinClean ''e'' ''main.libsonnet'')"
    by (simp add: osFiles_def JoinClean_def Clean_def)
  have j: "Stat (osFiles [''environments/e/main.jsonnet'']) (candidate JoinClean ''e'' ''main.jsonnet'') =
     Stat (osFiles [''environments/e/main.jsonnet'', ''environments/e/notes.txt''])
       (candidate JoinClean ''e'' ''main.jsonnet'')"
    by (simp add: osFiles_def JoinClean_def Clean_def)
  have r: "getJPathsAndFile JoinClean (osFiles [''environments/e/main.jsonnet'']) ''e'' =
     Inr ([''/w/lib'', ''/w/vendor'', ''e/.metadata''], ''environments/e/main.jsonnet'')"
    by (simp add: getJPathsAndFile_def osFiles_def JoinClean_def Clean_def)
  from g l j r getJPathsAndFile_same_twice [OF g l j] show ?thesis by blast
qed

text \<open>
  C10. A stat that fails with an error other than not-exist selects the candidate it
  was made on. The first candidate is checked once the working directory is known, the
  second once the stat of the first has reported that it does not exist; in either
  case the candidate is returned as the entry file, the error of the stat is dropped
  and no further candidate is looked at.
\<close>

theorem getJPathsAndFile_stat_error:
  assumes "Getwd w = Inr pwd" and "err \<noteq> ErrNotExist"
  shows "(Stat w (candidate Join path ''main.libsonnet'') = Some err \<longrightarrow>
            getJPathsAndFile Join w path =
              Inr (importRoots Join pwd path, candidate Join path ''main.libsonnet'')) \<and>
         (IsNotExist (Stat w (candidate Join path ''main.libsonnet'')) \<and>
          Stat w (candidate Join path ''main.jsonnet'') = Some err \<longrightarrow>
            getJPathsAndFile Join w path =
              Inr (importRoots Join pwd path, candidate Join path ''main.jsonnet''))"
  using assms(2) by (simp add: getJPathsAndFile_Getwd [OF assms(1)])

text \<open>
  Permission denied on both candidates, and on \<^verbatim>\<open>main.jsonnet\<close> where
  \<^verbatim>\<open>main.libsonnet\<close> does not exist.
\<close>

theorem getJPathsAndFile_stat_error_witness:
  "Getwd (osFailing [] (OsError ''permission denied'')) = Inr ''/w'' \<and>
   OsError ''permission denied'' \<noteq> ErrNotExist \<and>
   Stat (osFailing [] (OsError ''permission denied'')) ''environments/e/main.libsonnet'' =
     Some (OsError ''permission denied'') \<and>
   getJPathsAndFile JoinClean (osFailing [] (OsError ''permission denied'')) ''e'' =
     Inr ([''/w/lib'', ''/w/vendor'', ''e/.metadata''], ''environments/e/main.libsonnet'') \<and>
   IsNotExist (Stat (osFailing [''environments/e/main.libsonnet''] (OsError ''permission denied''))
     ''environments/e/main.libsonnet'') \<and>
   Stat (osFailing [''environments/e/main.libsonnet''] (OsError ''permission denied''))
     ''environments/e/main.jsonnet'' = Some (OsError ''permission denied'') \<and>
   getJPathsAndFile JoinClean (osFailing [''environments/e/main.libsonnet''] (OsError ''permission denied'')) ''e'' =
     Inr ([''/w/lib'', ''/w/vendor'', ''e/.metadata''], ''environments/e/main.jsonnet'')"
  using
    getJPathsAndFile_stat_error [of "osFailing [] (OsError ''permission denied'')" "''/w''"
      "OsError ''permission denied''" JoinClean "''e''"]
    getJPathsAndFile_stat_error [of "osFailing [''environments/e/main.libsonnet''] (OsError ''permission denied'')"
      "''/w''" "OsError ''permission denied''" JoinClean "''e''"]
  by (simp add: osFailing_def JoinClean_def Clean_def)

section \<open>Properties of the flattener\<close>

text \<open>
  The inner loop appends the address of its variable once for each item and leaves the
  last item in the variable.
\<close>

lemma range_Items_eq:
  "range_Items item xs ret h =
     (ret @ replicate (length xs) item, if xs = [] then h else h[item := last xs])"
  by (induction xs arbitrary: ret h) (simp_all add: replicate_append_same)

lemma expand_cong:
  assumes "\<And>a. a < length h \<Longrightarrow> deref h1 a = deref h a"
    and "\<forall>a. p = PtrUnstructured a \<longrightarrow> a < length h"
  shows "expand h1 p = expand h p"
  using assms by (cases p) simp_all

lemma range_objs_reads:
  assumes "range_objs objs ret h = Inr (ret', h')"
    and "\<forall>a\<in>set ret. a < length h"
    and "\<forall>a. PtrUnstructured a \<in> set objs \<longrightarrow> a < length h"
  shows "map (deref h') ret' = map (deref h) ret @ concat (map (expand h) objs)"
  using assms
proof (induction objs arbitrary: ret h)
  case Nil
  then show ?case by simp
next
  case (Cons obj objs)
  show ?case
  proof (cases obj)
    case (PtrUnstructuredList l)
    define h1 where "h1 = (if Items l = [] then h @ [Unstructured []] else (h @ [Unstructured []])[length h := last (Items l)])"
    define ret1 where "ret1 = ret @ replicate (length (Items l)) (length h)"
    have len: "length h1 = Suc (length h)" by (simp add: h1_def)
    have same: "deref h1 a = deref h a" if "a < length h" for a
      using that by (simp add: h1_def deref_def nth_append)
    have run: "range_objs objs ret1 h1 = Inr (ret', h')"
      using Cons.prems(1) PtrUnstructuredList by (simp add: range_Items_eq h1_def ret1_def)
    have r1: "\<forall>a\<in>set ret1. a < length h1"
      using Cons.prems(2) len by (auto simp: ret1_def)
    have o1: "\<forall>a. PtrUnstructured a \<in> set objs \<longrightarrow> a < length h1"
      using Cons.prems(3) len by auto
    have item: "Items l \<noteq> [] \<Longrightarrow> deref h1 (length h) = Some (last (Items l))"
      by (simp add: h1_def deref_def)
    have m: "map (deref h1) ret1 = map (deref h) ret @ expand h obj"
      using Cons.prems(2) same item PtrUnstructuredList by (auto simp: ret1_def)
    have e: "map (expand h1) objs = map (expand h) objs"
      using Cons.prems(3) same by (intro map_cong refl expand_cong) auto
    have "map (deref h') ret' = map (deref h1) ret1 @ concat (map (expand h1) objs)"
      by (rule Cons.IH [OF run r1 o1])
    also have "\<dots> = (map (deref h) ret @ expand h obj) @ concat (map (expand h) objs)"
      by (simp only: m e)
    finally show ?thesis by simp
  next
    case (PtrUnstructured a)
    then show ?thesis using Cons.prems Cons.IH [of "ret @ [a]" h] by auto
  next
    case OtherObject
    then show ?thesis using Cons.prems by simp
  qed
qed

text \<open>
  What the output of \<^verbatim>\<open>FlattenToV1\<close> reads as, for any input whose pointers are in
  the heap: an \<^verbatim>\<open>Unstructured\<close> as itself, a list of \<open>n\<close> items as \<open>n\<close> times its
  last item.
\<close>

lemma FlattenToV1_reads:
  assumes "FlattenToV1 h objs = Inr (ret, h')"
    and "\<forall>a. PtrUnstructured a \<in> set objs \<longrightarrow> a < length h"
  shows "map (deref h') ret = concat (map (expand h) objs)"
  using range_objs_reads [of objs "[]" h ret h'] assms by (simp add: FlattenToV1_def)

text \<open>
  C1 does not hold of the code, although the comment above \<^verbatim>\<open>FlattenToV1\<close> promises
  it (\<^emph>\<open>expands any List-type objects into their members\<close>). For a list of the two
  Pods \<^verbatim>\<open>a\<close> and \<^verbatim>\<open>b\<close> the result has two elements, both the address of the loop
  variable; read after the call, both are Pod \<^verbatim>\<open>b\<close>, and Pod \<^verbatim>\<open>a\<close> is not in the
  output.
\<close>

theorem FlattenToV1_two_pods:
  "FlattenToV1 [] [PtrUnstructuredList twoPods] = Inr ([0, 0], [podB]) \<and>
   map (deref [podB]) [0, 0] = [Some podB, Some podB] \<and>
   Items twoPods = [podA, podB] \<and> podA \<noteq> podB"
  by (simp add: FlattenToV1_def twoPods_def deref_def podA_def podB_def)

section \<open>Properties of extraction followed by flattening\<close>

text \<open>Every element of a result of the walk is a descriptor.\<close>

lemma walk_result_descriptors_aux:
  "(\<forall>r. jsonWalk v = Inr r \<longrightarrow> (\<forall>x\<in>set r. \<exists>o'. x = JObject o' \<and> isDescriptor o'))"
  "(\<forall>r. (\<forall>x\<in>set ret1. \<exists>o'. x = JObject o' \<and> isDescriptor o') \<longrightarrow> jsonWalk_map kvs ret1 = Inr r \<longrightarrow>
      (\<forall>x\<in>set r. \<exists>o'. x = JObject o' \<and> isDescriptor o'))"
  "(\<forall>r. (\<forall>x\<in>set ret2. \<exists>o'. x = JObject o' \<and> isDescriptor o') \<longrightarrow> jsonWalk_slice vs ret2 = Inr r \<longrightarrow>
      (\<forall>x\<in>set r. \<exists>o'. x = JObject o' \<and> isDescriptor o'))"
proof (induction v and kvs ret1 and vs ret2 rule: jsonWalk_jsonWalk_map_jsonWalk_slice.induct)
  case (1 o')
  then show ?case by auto
next
  case (8 k v kvs ret)
  then show ?case by (auto split: sum.splits)
next
  case (10 v vs ret)
  then show ?case by (auto split: sum.splits)
qed simp_all

lemma walk_result_descriptors:
  "jsonWalk v = Inr r \<Longrightarrow> x \<in> set r \<Longrightarrow> \<exists>o'. x = JObject o' \<and> isDescriptor o'"
  using walk_result_descriptors_aux(1) by blast

text \<open>
  The loop that decodes the descriptors hands on what \<open>Decode\<close> made of them: each
  pointer to an \<^verbatim>\<open>Unstructured\<close> is in the heap and each object was decoded from one
  of the descriptors.
\<close>

lemma range_decode_origin:
  assumes "range_decode M D vs ret h = Inr (ret', h')"
    and "set vs \<subseteq> V"
    and "\<forall>p\<in>set ret. decodedFrom M D V h p"
  shows "\<forall>p\<in>set ret'. decodedFrom M D V h' p"
  using assms
proof (induction vs arbitrary: ret h)
  case Nil
  then show ?case by simp
next
  case (Cons v vs)
  from Cons.prems(1) obtain data obj p h1
    where obj: "M v = Inr data" "D data = Inr obj" "new obj h = (p, h1)"
      and run: "range_decode M D vs (ret @ [p]) h1 = Inr (ret', h')"
    by (auto split: sum.splits prod.splits)
  have v: "v \<in> V" and vs: "set vs \<subseteq> V"
    using Cons.prems(2) by auto
  have "\<forall>q\<in>set (ret @ [p]). decodedFrom M D V h1 q"
  proof (cases obj)
    case (DUnstructuredList l)
    with obj v Cons.prems(3) show ?thesis by auto
  next
    case (DUnstructured u)
    with obj have p: "p = PtrUnstructured (length h)" and h1: "h1 = h @ [u]"
      by auto
    have "decodedFrom M D V h1 q" if "q \<in> set ret" for q
      using Cons.prems(3) that by (auto simp: h1 nth_append)
    moreover have "decodedFrom M D V h1 p"
      using obj(1,2) v DUnstructured by (auto simp: p h1)
    ultimately show ?thesis by auto
  next
    case DOther
    with obj Cons.prems(3) show ?thesis by auto
  qed
  from Cons.IH [OF run vs this] show ?case .
qed

text \<open>What \<open>expand\<close> yields for an object that was decoded from one of the values.\<close>

lemma expand_origin:
  assumes "decodedFrom M D V h p" and "x \<in> set (expand h p)"
  shows "(\<exists>a. p = PtrUnstructured a \<and> a < length h \<and> x = Some (h ! a)) \<or>
         (\<exists>l. p = PtrUnstructuredList l \<and> Items l \<noteq> [] \<and> x = Some (last (Items l)))"
  using assms by (cases p) (auto simp: deref_def)

text \<open>
  C7, as the spec states it, fails on the code, in both of its halves. The walk stops at
  a list-wrapper, so its items are never looked at, and the flattener appends what the
  item collection holds. For a list whose item has a \<^verbatim>\<open>kind\<close> and no
  \<^verbatim>\<open>apiVersion\<close> the pipeline succeeds and the one element of its output has a null
  \<^verbatim>\<open>apiVersion\<close>. For a list whose item is a list the pipeline succeeds and the one
  element of its output is that inner list, a list-wrapper.
\<close>

theorem jsonTok8sObjs_item_counterexample:
  "jsonTok8sObjs Inr Inr DecodeObject listOfBarePod = Inr ([0], [Unstructured [(''kind'', JString ''Pod'')]]) \<and>
   deref [Unstructured [(''kind'', JString ''Pod'')]] 0 = Some (Unstructured [(''kind'', JString ''Pod'')]) \<and>
   index (Object (Unstructured [(''kind'', JString ''Pod'')])) ''apiVersion'' = JNull \<and>
   jsonTok8sObjs Inr Inr DecodeObject listOfList =
     Inr ([0], [Unstructured [(''kind'', JString ''List''), (''apiVersion'', JString ''v1''),
                   (''items'', JArray [JObject podV1])]]) \<and>
   deref [Unstructured [(''kind'', JString ''List''), (''apiVersion'', JString ''v1''),
            (''items'', JArray [JObject podV1])]] 0 =
     Some (Unstructured [(''kind'', JString ''List''), (''apiVersion'', JString ''v1''),
             (''items'', JArray [JObject podV1])]) \<and>
   isListWrapper (Object (Unstructured [(''kind'', JString ''List''), (''apiVersion'', JString ''v1''),
                    (''items'', JArray [JObject podV1])]))"
  by (simp add: jsonTok8sObjs_def listOfBarePod_def listOfList_def index_def FlattenToV1_def deref_def
      decodeToList_def getString_def trimSuffixList_def)

text \<open>
  C7, amended. Whenever the pipeline succeeds, every descriptor that extraction returns
  has a non-null \<^verbatim>\<open>kind\<close> and \<^verbatim>\<open>apiVersion\<close>, and every element of the output is
  one of two things. Either it is one of the extracted descriptors, decoded as an
  \<^verbatim>\<open>Unstructured\<close>: then it has a non-null \<^verbatim>\<open>kind\<close> and \<^verbatim>\<open>apiVersion\<close> and is
  not a list-wrapper. Or it is an item of a list-wrapper among the extracted
  descriptors: of these nothing is promised, the code checks no item. The statement
  holds with and without list-wrappers in the input. It supposes of the library that an
  \<^verbatim>\<open>Unstructured\<close> returned by \<open>Decode\<close> holds the object that was marshalled, and
  that this object is then not of the shape of a list-wrapper.
\<close>

theorem jsonTok8sObjs_output:
  assumes "jsonTok8sObjs Unmarshal Marshal Decode jsonstr = Inr (ret, h)"
    and "\<And>o' data u. Marshal (JObject o') = Inr data \<Longrightarrow> Decode data = Inr (DUnstructured u) \<Longrightarrow>
           Object u = o' \<and> \<not> isListWrapper o'"
  shows "\<exists>top' objs. Unmarshal jsonstr = Inr top' \<and> jsonWalk top' = Inr objs \<and>
           (\<forall>v\<in>set objs. \<exists>o'. v = JObject o' \<and> isDescriptor o') \<and>
           (\<forall>a\<in>set ret. \<exists>u. deref h a = Some u \<and>
              ((JObject (Object u) \<in> set objs \<and> isDescriptor (Object u) \<and> \<not> isListWrapper (Object u)) \<or>
               (\<exists>v\<in>set objs. \<exists>data l. Marshal v = Inr data \<and>
                  Decode data = Inr (DUnstructuredList l) \<and> u \<in> set (Items l))))"
proof -
  from assms(1) obtain top' objs ps h0
    where top: "Unmarshal jsonstr = Inr top'" and walk: "jsonWalk top' = Inr objs"
      and dec: "range_decode Marshal Decode objs [] [] = Inr (ps, h0)"
      and flat: "range_objs ps [] h0 = Inr (ret, h)"
    by (auto simp: jsonTok8sObjs_def FlattenToV1_def split: sum.splits prod.splits)
  have desc: "\<forall>v\<in>set objs. \<exists>o'. v = JObject o' \<and> isDescriptor o'"
    using walk_result_descriptors [OF walk] by blast
  have origin: "\<forall>p\<in>set ps. decodedFrom Marshal Decode (set objs) h0 p"
    using range_decode_origin [OF dec, of "set objs"] by simp
  then have valid: "\<forall>a. PtrUnstructured a \<in> set ps \<longrightarrow> a < length h0"
    by blast
  have reads: "map (deref h) ret = concat (map (expand h0) ps)"
    using range_objs_reads [OF flat _ valid] by simp
  have out: "\<exists>u. deref h a = Some u \<and>
              ((JObject (Object u) \<in> set objs \<and> isDescriptor (Object u) \<and> \<not> isListWrapper (Object u)) \<or>
               (\<exists>v\<in>set objs. \<exists>data l. Marshal v = Inr data \<and>
                  Decode data = Inr (DUnstructuredList l) \<and> u \<in> set (Items l)))"
    if "a \<in> set ret" for a
  proof -
    from that have "deref h a \<in> set (map (deref h) ret)" by simp
    then obtain p where p: "p \<in> set ps" "deref h a \<in> set (expand h0 p)"
      unfolding reads by auto
    from origin p(1) have o: "decodedFrom Marshal Decode (set objs) h0 p" by blast
    from expand_origin [OF o p(2)] show ?thesis
    proof
      assume "\<exists>b. p = PtrUnstructured b \<and> b < length h0 \<and> deref h a = Some (h0 ! b)"
      then obtain b where b: "p = PtrUnstructured b" "deref h a = Some (h0 ! b)" by blast
      with o obtain v data where v: "v \<in> set objs" "Marshal v = Inr data"
          "Decode data = Inr (DUnstructured (h0 ! b))"
        by blast
      from desc v(1) obtain o' where o': "v = JObject o'" "isDescriptor o'" by blast
      from assms(2) [of o' data "h0 ! b"] v(2,3) o'(1)
      have "Object (h0 ! b) = o' \<and> \<not> isListWrapper o'" by simp
      with b(2) v(1) o' show ?thesis by auto
    next
      assume "\<exists>l. p = PtrUnstructuredList l \<and> Items l \<noteq> [] \<and> deref h a = Some (last (Items l))"
      then obtain l where l: "p = PtrUnstructuredList l" "Items l \<noteq> []"
          "deref h a = Some (last (Items l))"
        by blast
      with o obtain v data where "v \<in> set objs" "Marshal v = Inr data"
          "Decode data = Inr (DUnstructuredList l)"
        by blast
      with l(2,3) show ?thesis by (metis last_in_set)
    qed
  qed
  from top walk desc out show ?thesis by blast
qed

text \<open>
  What the theorem supposes of the library holds of \<open>DecodeObject\<close>, with the decoded
  value in place of its text.
\<close>

lemma DecodeObject_Unstructured:
  assumes "DecodeObject (JObject o') = Inr (DUnstructured u)"
  shows "Object u = o' \<and> \<not> isListWrapper o'"
  using assms
  by (auto simp: index_def decodeToList_def split: option.splits json.splits sum.splits if_splits)

text \<open>
  An input with a list-wrapper and a plain descriptor: the output holds the Pod, an item
  of the list, and the Service, an extracted descriptor.
\<close>

theorem jsonTok8sObjs_output_witness:
  "jsonTok8sObjs Inr Inr DecodeObject listAndService =
     Inr ([1, 0], [Unstructured serviceV1, Unstructured podV1]) \<and>
   jsonWalk listAndService =
     Inr [JObject [(''kind'', JString ''List''), (''apiVersion'', JString ''v1''),
            (''items'', JArray [JObject podV1])],
          JObject serviceV1] \<and>
   DecodeObject (JObject [(''kind'', JString ''List''), (''apiVersion'', JString ''v1''),
       (''items'', JArray [JObject podV1])]) =
     Inr (DUnstructuredList (UnstructuredList [(''kind'', JString ''List''), (''apiVersion'', JString ''v1'')]
            [Unstructured podV1])) \<and>
   DecodeObject (JObject serviceV1) = Inr (DUnstructured (Unstructured serviceV1)) \<and>
   deref [Unstructured serviceV1, Unstructured podV1] 1 = Some (Unstructured podV1) \<and>
   Unstructured podV1 \<in> set (Items (UnstructuredList [(''kind'', JString ''List''), (''apiVersion'', JString ''v1'')]
            [Unstructured podV1])) \<and>
   deref [Unstructured serviceV1, Unstructured podV1] 0 = Some (Unstructured serviceV1) \<and>
   isDescriptor (Object (Unstructured serviceV1)) \<and> \<not> isListWrapper (Object (Unstructured serviceV1))"
proof -
  have r: "jsonTok8sObjs Inr Inr DecodeObject listAndService =
     Inr ([1, 0], [Unstructured serviceV1, Unstructured podV1])"
    by (simp add: jsonTok8sObjs_def listAndService_def podV1_def serviceV1_def index_def FlattenToV1_def
        decodeToList_def getString_def trimSuffixList_def)
  have keeps: "\<And>o' data u. Inr (JObject o') = (Inr data :: error + json) \<Longrightarrow>
      DecodeObject data = Inr (DUnstructured u) \<Longrightarrow> Object u = o' \<and> \<not> isListWrapper o'"
    using DecodeObject_Unstructured by blast
  have w: "jsonWalk listAndService =
     Inr [JObject [(''kind'', JString ''List''), (''apiVersion'', JString ''v1''),
            (''items'', JArray [JObject podV1])],
          JObject serviceV1]"
    by (simp add: listAndService_def podV1_def serviceV1_def index_def)
  have l: "DecodeObject (JObject [(''kind'', JString ''List''), (''apiVersion'', JString ''v1''),
       (''items'', JArray [JObject podV1])]) =
     Inr (DUnstructuredList (UnstructuredList [(''kind'', JString ''List''), (''apiVersion'', JString ''v1'')]
            [Unstructured podV1]))"
    by (simp add: podV1_def index_def decodeToList_def getString_def trimSuffixList_def)
  have s: "DecodeObject (JObject serviceV1) = Inr (DUnstructured (Unstructured serviceV1))"
    by (simp add: serviceV1_def index_def getString_def)
  have d: "deref [Unstructured serviceV1, Unstructured podV1] 1 = Some (Unstructured podV1)"
      "deref [Unstructured serviceV1, Unstructured podV1] 0 = Some (Unstructured serviceV1)"
    by (simp_all add: deref_def)
  have pod: "Unstructured podV1 \<in> set (Items (UnstructuredList
      [(''kind'', JString ''List''), (''apiVersion'', JString ''v1'')] [Unstructured podV1]))"
    by simp
  have notpod: "\<not> (\<exists>v\<in>set [JObject [(''kind'', JString ''List''), (''apiVersion'', JString ''v1''),
            (''items'', JArray [JObject podV1])], JObject serviceV1]. \<exists>data l. Inr v = Inr data \<and>
         DecodeObject data = Inr (DUnstructuredList l) \<and> Unstructured serviceV1 \<in> set (Items l))"
    using l s by (auto simp: podV1_def serviceV1_def)
  from jsonTok8sObjs_output [OF r keeps] w
  have "\<forall>a\<in>set [1, 0]. \<exists>u. deref [Unstructured serviceV1, Unstructured podV1] a = Some u \<and>
      ((JObject (Object u) \<in> set [JObject [(''kind'', JString ''List''), (''apiVersion'', JString ''v1''),
            (''items'', JArray [JObject podV1])], JObject serviceV1] \<and>
        isDescriptor (Object u) \<and> \<not> isListWrapper (Object u)) \<or>
       (\<exists>v\<in>set [JObject [(''kind'', JString ''List''), (''apiVersion'', JString ''v1''),
            (''items'', JArray [JObject podV1])], JObject serviceV1]. \<exists>data l. Inr v = Inr data \<and>
          DecodeObject data = Inr (DUnstructuredList l) \<and> u \<in> set (Items l)))"
    by auto
  with d(2) notpod
  have "isDescriptor (Object (Unstructured serviceV1)) \<and> \<not> isListWrapper (Object (Unstructured serviceV1))"
    by auto
  with r w l s d pod show ?thesis by blast
qed

end
